theory Spec2Isabelle
  imports Main
begin

section \<open>The rule lines-around-directive\<close>

text \<open>
  A shallow embedding of \<^verbatim>\<open>lib/rules/lines-around-directive.js\<close>: the rule
  looks at the first statement of a program or function body, decides whether it is the
  \<^verbatim>\<open>'use strict'\<close> directive, and reports missing or superfluous blank lines
  before and after it.
\<close>

subsection \<open>Syntax trees, tokens and comments\<close>

text \<open>
  Source positions as the parser attaches them: \<^verbatim>\<open>x.loc.start.line\<close> and
  \<^verbatim>\<open>x.loc.end.line\<close>. The rule subtracts line numbers, so they are integers.
\<close>

record position =
  line :: int
  column :: int

record location =
  loc_start :: position
  loc_end :: position

text \<open>
  Everything the rule reads a location from (statements, comments, tokens) has a
  \<^verbatim>\<open>loc\<close> property; comments and tokens are the same kind of object for the rule,
  which only ever reads their location.
\<close>

record located =
  loc :: location

record token = located +
  kind :: string
  text_value :: string

text \<open>
  The value of a \<^verbatim>\<open>Literal\<close> node: a string, or something that is not a string
  (a number, a boolean, null, a regular expression). The rule compares the value with
  \<^verbatim>\<open>===\<close> against a string, so only strings can match.
\<close>

datatype literal_value = StringValue string | NonStringValue

text \<open>An expression is a \<^verbatim>\<open>Literal\<close> or any other node, kept by its type tag.\<close>

datatype expression = Literal literal_value | OtherExpression string

text \<open>
  A statement is an \<^verbatim>\<open>ExpressionStatement\<close> with its expression, or any other
  statement, kept by its type tag. \<^verbatim>\<open>leadingComments\<close> is the property the
  parser's comment attachment sets on a node; it is absent (\<open>None\<close>) on a node with no
  comment before it.
\<close>

datatype statement_type = ExpressionStatement expression | OtherStatement string

record statement = located +
  node_type :: statement_type
  leadingComments :: "token list option"

text \<open>
  The nodes the rule is registered for. \<^verbatim>\<open>Program.body\<close> is the statement list
  itself; a function declaration or function expression has a \<^verbatim>\<open>BlockStatement\<close>
  body, whose \<^verbatim>\<open>body\<close> is the statement list; an arrow function has a block body
  or a bare expression.
\<close>

datatype arrow_body = BlockStatement "statement list" | ExpressionBody expression

datatype node =
    Program "statement list"
  | FunctionDeclaration "statement list"
  | FunctionExpression "statement list"
  | ArrowFunctionExpression arrow_body

text \<open>
  The \<^verbatim>\<open>sourceCode\<close> object, as far as the rule uses it:
  \<^verbatim>\<open>getComments(node)\<close> gives the leading and trailing comments of a node,
  \<^verbatim>\<open>getTokenAfter(node)\<close> the next token, or null when the node ends the file.
\<close>

record comments =
  leading :: "token list"
  trailing :: "token list"

record sourceCode =
  getComments :: "statement \<Rightarrow> comments"
  getTokenAfter :: "statement \<Rightarrow> token option"

subsection \<open>Options, reports and faults\<close>

text \<open>
  The resolved mode \<^verbatim>\<open>{ before, after }\<close>. The rule compares the two fields with
  \<^verbatim>\<open>=== "always"\<close> and \<^verbatim>\<open>=== "never"\<close>, so they stay strings.
\<close>

record mode =
  before :: string
  after :: string

text \<open>
  An entry of \<^verbatim>\<open>context.options\<close>: by the rule's schema a string or an object
  with both properties \<^verbatim>\<open>before\<close> and \<^verbatim>\<open>after\<close>.
\<close>

datatype config = StringConfig string | ObjectConfig mode

text \<open>What \<^verbatim>\<open>context.report\<close> receives.\<close>

record report =
  node :: statement
  message :: string
  data :: "(string \<times> string) list"

text \<open>
  Reading a property of \<^verbatim>\<open>undefined\<close> or \<^verbatim>\<open>null\<close> throws a
  \<^verbatim>\<open>TypeError\<close>.
\<close>

datatype error = TypeError

text \<open>
  Indexing an array: \<^verbatim>\<open>xs[i]\<close> is \<^verbatim>\<open>undefined\<close> (here \<open>None\<close>)
  outside \<open>0 \<le> i < xs.length\<close>.
\<close>

definition index :: "'a list \<Rightarrow> int \<Rightarrow> 'a option" where
  "index xs i = (if 0 \<le> i \<and> i < int (length xs) then Some (xs ! nat i) else None)"

text \<open>The truthiness of an option value, for \<^verbatim>\<open>context.options[0] || "always"\<close>:
  the empty string is falsy, every object is truthy.\<close>

fun truthy :: "config \<Rightarrow> bool" where
  "truthy (StringConfig s) = (s \<noteq> [])"
| "truthy (ObjectConfig m) = True"

subsection \<open>The helpers of the rule\<close>

text \<open>\<^verbatim>\<open>generateMode\<close>: a string fills both fields, an object gives its own.\<close>

fun generateMode :: "config \<Rightarrow> mode" where
  "generateMode (StringConfig s) = \<lparr>before = s, after = s\<rparr>"
| "generateMode (ObjectConfig c) = \<lparr>before = before c, after = after c\<rparr>"

text \<open>
  The first lines of \<^verbatim>\<open>create\<close>:
  \<^verbatim>\<open>const config = context.options[0] || "always"; const mode = generateMode(config);\<close>
\<close>

definition create :: "config list \<Rightarrow> mode" where
  "create options =
     (let config = (case index options 0 of
                      None \<Rightarrow> StringConfig ''always''
                    | Some c \<Rightarrow> if truthy c then c else StringConfig ''always'')
      in generateMode config)"

text \<open>
  \<^verbatim>\<open>isNodeUseStrictDirective\<close>. The argument is \<^verbatim>\<open>body[0]\<close>, which is
  \<^verbatim>\<open>undefined\<close> for an empty body; \<^verbatim>\<open>node.type\<close> then throws.
\<close>

fun isNodeUseStrictDirective :: "statement option \<Rightarrow> error + bool" where
  "isNodeUseStrictDirective None = Inl TypeError"
| "isNodeUseStrictDirective (Some n) =
     Inr (case node_type n of
            ExpressionStatement e \<Rightarrow>
              (case e of
                 Literal v \<Rightarrow> v = StringValue ''use strict''
               | OtherExpression t \<Rightarrow> False)
          | OtherStatement t \<Rightarrow> False)"

text \<open>\<^verbatim>\<open>getUseStrictDirective\<close>: the first statement or null.\<close>

definition getUseStrictDirective :: "statement list \<Rightarrow> error + statement option" where
  "getUseStrictDirective body =
     (let firstStatement = index body 0
      in case isNodeUseStrictDirective firstStatement of
           Inl e \<Rightarrow> Inl e
         | Inr b \<Rightarrow> Inr (if b then firstStatement else None))"

text \<open>
  \<^verbatim>\<open>hasNewlineBefore\<close>: \<^verbatim>\<open>comments[comments.length - 1]\<close> is
  \<^verbatim>\<open>undefined\<close> for an empty list, and reading its \<^verbatim>\<open>loc\<close> throws.
\<close>

definition hasNewlineBefore :: "statement \<Rightarrow> token list \<Rightarrow> error + bool" where
  "hasNewlineBefore n cs =
     (case index cs (int (length cs) - 1) of
        None \<Rightarrow> Inl TypeError
      | Some comment \<Rightarrow> Inr (line (loc_start (loc n)) - line (loc_end (loc comment)) \<ge> 2))"

text \<open>
  \<^verbatim>\<open>hasNewlineAfter\<close>: the first trailing comment, or else the next token;
  \<^verbatim>\<open>getTokenAfter\<close> may give null, and reading its \<^verbatim>\<open>loc\<close> throws.
\<close>

definition hasNewlineAfter :: "sourceCode \<Rightarrow> statement \<Rightarrow> error + bool" where
  "hasNewlineAfter sc n =
     (let trailingComments = trailing (getComments sc n);
          tokenAfter = (if length trailingComments \<noteq> 0 then index trailingComments 0
                        else getTokenAfter sc n)
      in case tokenAfter of
           None \<Rightarrow> Inl TypeError
         | Some t \<Rightarrow> Inr (line (loc_start (loc t)) - line (loc_end (loc n)) \<ge> 2))"

text \<open>
  The object literal that \<^verbatim>\<open>reportError\<close> builds: the node, the message
  template and the data for its two placeholders.
\<close>

definition descriptor :: "statement \<Rightarrow> string \<Rightarrow> bool \<Rightarrow> report" where
  "descriptor n location expected =
     \<lparr>node = n,
      message = ''{{expected}} newline {{location}} 'use strict' directive.'',
      data = [(''expected'', if expected then ''Expected'' else ''Unexpected''),
              (''location'', location)]\<rparr>"

text \<open>
  \<^verbatim>\<open>reportError\<close> passes the descriptor to \<^verbatim>\<open>context.report\<close>; the
  reports of a run are kept in the order they are made.
\<close>

definition reportError :: "statement \<Rightarrow> string \<Rightarrow> bool \<Rightarrow> report list \<Rightarrow> report list" where
  "reportError n location expected reports = reports @ [descriptor n location expected]"

subsection \<open>The check\<close>

text \<open>
  A run of a piece of the rule from a list of reports gives the list of reports after it
  and says whether it returned (\<open>None\<close>) or threw (\<open>Some e\<close>); reports made before a
  throw stay made.
\<close>

type_synonym effect = "report list \<Rightarrow> error option \<times> report list"

text \<open>
  One statement of the form \<^verbatim>\<open>if (c && t) { act }\<close>: the test \<open>t\<close> is evaluated
  only when \<open>c\<close> holds, and may throw.
\<close>

definition when_both :: "bool \<Rightarrow> error + bool \<Rightarrow> (report list \<Rightarrow> report list) \<Rightarrow> effect" where
  "when_both c t act reports =
     (if \<not> c then (None, reports)
      else case t of
             Inl e \<Rightarrow> (Some e, reports)
           | Inr b \<Rightarrow> (None, if b then act reports else reports))"

text \<open>Two statements in sequence: the second runs if the first returned.\<close>

definition and_then :: "effect \<Rightarrow> effect \<Rightarrow> effect" where
  "and_then f g reports =
     (case f reports of
        (Some e, reports') \<Rightarrow> (Some e, reports')
      | (None, reports') \<Rightarrow> g reports')"

text \<open>The negation \<^verbatim>\<open>!f(...)\<close> of a test that may throw.\<close>

fun negate :: "error + bool \<Rightarrow> error + bool" where
  "negate (Inl e) = Inl e"
| "negate (Inr b) = Inr (\<not> b)"

text \<open>
  \<^verbatim>\<open>checkDirectives\<close> is given in four parts, in the order of the source. The
  first is its "before" block (lines 149 to 158): it runs when
  \<^verbatim>\<open>leadingComments\<close> is present and not empty.
\<close>

definition check_before :: "mode \<Rightarrow> statement \<Rightarrow> effect" where
  "check_before m directive =
     (case leadingComments directive of
        None \<Rightarrow> (\<lambda>reports. (None, reports))
      | Some cs \<Rightarrow>
          if length cs \<noteq> 0 then
            and_then
              (when_both (before m = ''always'') (negate (hasNewlineBefore directive cs))
                 (reportError directive ''before'' True))
              (when_both (before m = ''never'') (hasNewlineBefore directive cs)
                 (reportError directive ''before'' False))
          else (\<lambda>reports. (None, reports)))"

text \<open>The "after" block (lines 165 to 171).\<close>

definition check_after :: "mode \<Rightarrow> sourceCode \<Rightarrow> statement \<Rightarrow> effect" where
  "check_after m sc directive =
     and_then
       (when_both (after m = ''always'') (negate (hasNewlineAfter sc directive))
          (reportError directive ''after'' True))
       (when_both (after m = ''never'') (hasNewlineAfter sc directive)
          (reportError directive ''after'' False))"

text \<open>
  The check from the body on (lines 142 to 171): without a directive it returns; the
  "before" block runs; it returns when the directive is the last statement of the body;
  then the "after" block runs. The test \<^verbatim>\<open>directive === body[body.length - 1]\<close>
  compares two nodes of one body. Different statements of a body lie at different
  places of the source, and a statement carries its location, so they are the same node
  exactly when they are the same value.
\<close>

definition check_body :: "mode \<Rightarrow> sourceCode \<Rightarrow> statement list \<Rightarrow> effect" where
  "check_body m sc body reports =
     (case getUseStrictDirective body of
        Inl e \<Rightarrow> (Some e, reports)
      | Inr None \<Rightarrow> (None, reports)
      | Inr (Some directive) \<Rightarrow>
          and_then (check_before m directive)
            (\<lambda>reports'.
               if Some directive = index body (int (length body) - 1) then (None, reports')
               else check_after m sc directive reports')
            reports)"

text \<open>
  The head of \<^verbatim>\<open>checkDirectives\<close> (lines 137 to 141): an arrow function with an
  expression body is skipped; the body is \<^verbatim>\<open>node.body\<close> for a program and
  \<^verbatim>\<open>node.body.body\<close> for a function.
\<close>

fun checkDirectives :: "mode \<Rightarrow> sourceCode \<Rightarrow> node \<Rightarrow> effect" where
  "checkDirectives m sc (ArrowFunctionExpression (ExpressionBody e)) reports = (None, reports)"
| "checkDirectives m sc (ArrowFunctionExpression (BlockStatement body)) reports =
     check_body m sc body reports"
| "checkDirectives m sc (Program body) reports = check_body m sc body reports"
| "checkDirectives m sc (FunctionDeclaration body) reports = check_body m sc body reports"
| "checkDirectives m sc (FunctionExpression body) reports = check_body m sc body reports"

subsection \<open>The text of a report\<close>

text \<open>
  Modelled from the spec: \<^verbatim>\<open>context.report\<close> belongs to the surrounding tool and
  is not part of the rule's file. The spec gives the message of a diagnostic as the
  template with its placeholders filled, so each \<^verbatim>\<open>{{name}}\<close> of the message
  is replaced by the entry \<open>name\<close> of the report's data; a placeholder with no entry, or
  one that is never closed, stays as it is written. The second argument is the name read
  so far inside an open placeholder.
\<close>

fun interpolate :: "(string \<times> string) list \<Rightarrow> string option \<Rightarrow> string \<Rightarrow> string" where
  "interpolate d None [] = []"
| "interpolate d None [c] = [c]"
| "interpolate d None (c # c' # cs) =
     (if c = CHR ''{'' \<and> c' = CHR ''{'' then interpolate d (Some []) cs
      else c # interpolate d None (c' # cs))"
| "interpolate d (Some name) [] = ''{{'' @ name"
| "interpolate d (Some name) [c] = ''{{'' @ name @ [c]"
| "interpolate d (Some name) (c # c' # cs) =
     (if c = CHR ''}'' \<and> c' = CHR ''}'' then
        (case map_of d name of
           Some v \<Rightarrow> v
         | None \<Rightarrow> ''{{'' @ name @ ''}}'') @ interpolate d None cs
      else interpolate d (Some (name @ [c])) (c' # cs))"

text \<open>
  Modelled from the spec: the text of a diagnostic is the message of its report with the
  placeholders filled from the report's own data.
\<close>

definition rendered :: "report \<Rightarrow> string" where
  "rendered r = interpolate (data r) None (message r)"

text \<open>The side a report is about: the \<^verbatim>\<open>location\<close> entry of its data.\<close>

definition side :: "report \<Rightarrow> string option" where
  "side r = map_of (data r) ''location''"

text \<open>
  The value of \<^verbatim>\<open>body\<close> in \<^verbatim>\<open>checkDirectives\<close>, for the nodes that
  get past its first test.
\<close>

fun scope_body :: "node \<Rightarrow> statement list option" where
  "scope_body (Program body) = Some body"
| "scope_body (FunctionDeclaration body) = Some body"
| "scope_body (FunctionExpression body) = Some body"
| "scope_body (ArrowFunctionExpression (BlockStatement body)) = Some body"
| "scope_body (ArrowFunctionExpression (ExpressionBody e)) = None"

subsection \<open>Sources of the test suite, as syntax trees\<close>

text \<open>A location on a single line.\<close>

definition on_line :: "int \<Rightarrow> location" where
  "on_line l = \<lparr>loc_start = \<lparr>line = l, column = 0\<rparr>, loc_end = \<lparr>line = l, column = 13\<rparr>\<rparr>"

text \<open>
  The program \<^verbatim>\<open>// comment\n'use strict';\nvar foo;\<close>: a comment on line 1, the
  directive on line 2 with the comment attached, a declaration on line 3.
\<close>

definition comment_A :: token where
  "comment_A = \<lparr>loc = on_line 1, kind = ''Line'', text_value = '' comment''\<rparr>"

definition directive_A :: statement where
  "directive_A = \<lparr>loc = on_line 2,
                   node_type = ExpressionStatement (Literal (StringValue ''use strict'')),
                   leadingComments = Some [comment_A]\<rparr>"

definition declaration_A :: statement where
  "declaration_A = \<lparr>loc = on_line 3, node_type = OtherStatement ''VariableDeclaration'',
                     leadingComments = None\<rparr>"

definition source_A :: sourceCode where
  "source_A =
     \<lparr>getComments = (\<lambda>n. \<lparr>leading = (if n = directive_A then [comment_A] else []),
                            trailing = []\<rparr>),
      getTokenAfter = (\<lambda>n. if n = directive_A
                            then Some \<lparr>loc = on_line 3, kind = ''Keyword'', text_value = ''var''\<rparr>
                            else None)\<rparr>"

text \<open>
  The program \<^verbatim>\<open>'use strict';\nvar foo;\<close>: the directive on line 1 with no
  comment, a declaration on line 2.
\<close>

definition directive_B :: statement where
  "directive_B = \<lparr>loc = on_line 1,
                   node_type = ExpressionStatement (Literal (StringValue ''use strict'')),
                   leadingComments = None\<rparr>"

definition declaration_B :: statement where
  "declaration_B = \<lparr>loc = on_line 2, node_type = OtherStatement ''VariableDeclaration'',
                     leadingComments = None\<rparr>"

definition source_B :: sourceCode where
  "source_B =
     \<lparr>getComments = (\<lambda>n. \<lparr>leading = [], trailing = []\<rparr>),
      getTokenAfter = (\<lambda>n. if n = directive_B
                            then Some \<lparr>loc = on_line 2, kind = ''Keyword'', text_value = ''var''\<rparr>
                            else None)\<rparr>"

text \<open>
  The program \<^verbatim>\<open>'use strict';\n\n//comment\<close>: the directive on line 1, a
  trailing comment on line 3, and no token after the directive.
\<close>

definition comment_C :: token where
  "comment_C = \<lparr>loc = on_line 3, kind = ''Line'', text_value = ''comment''\<rparr>"

definition source_C :: sourceCode where
  "source_C =
     \<lparr>getComments = (\<lambda>n. \<lparr>leading = [],
                            trailing = (if n = directive_B then [comment_C] else [])\<rparr>),
      getTokenAfter = (\<lambda>n. None)\<rparr>"

text \<open>The empty program: no statement, no comment, no token.\<close>

definition empty_source :: sourceCode where
  "empty_source =
     \<lparr>getComments = (\<lambda>n. \<lparr>leading = [], trailing = []\<rparr>), getTokenAfter = (\<lambda>n. None)\<rparr>"

section \<open>Properties\<close>

subsection \<open>Arrays, the directive and the two measurements\<close>

lemma index_Nil: "index [] i = None"
  by (simp add: index_def)

lemma index_Cons_0: "index (x # xs) 0 = Some x"
  by (simp add: index_def)

lemma index_last: "xs \<noteq> [] \<Longrightarrow> index xs (int (length xs) - 1) = Some (last xs)"
  by (cases xs rule: rev_cases) (simp_all add: index_def nat_diff_distrib')

lemma isNodeUseStrictDirective_Some:
  "isNodeUseStrictDirective (Some s) =
     Inr (node_type s = ExpressionStatement (Literal (StringValue ''use strict'')))"
  by (simp split: statement_type.split expression.split)

lemma getUseStrictDirective_Nil: "getUseStrictDirective [] = Inl TypeError"
  by (simp add: getUseStrictDirective_def index_Nil)

lemma getUseStrictDirective_Cons:
  "getUseStrictDirective (s # rest) =
     (if isNodeUseStrictDirective (Some s) = Inr True then Inr (Some s) else Inr None)"
  by (simp add: getUseStrictDirective_def index_Cons_0)

lemma hasNewlineBefore_last:
  "cs \<noteq> [] \<Longrightarrow>
   hasNewlineBefore n cs = Inr (2 \<le> line (loc_start (loc n)) - line (loc_end (loc (last cs))))"
  by (simp add: hasNewlineBefore_def index_last)

lemma side_descriptor [simp]: "side (descriptor d l e) = Some l"
  by (simp add: side_def descriptor_def)

lemma node_descriptor [simp]: "node (descriptor d l e) = d"
  by (simp add: descriptor_def)

lemma rendered_descriptor:
  "rendered (descriptor d ''before'' True) = ''Expected newline before 'use strict' directive.''"
  "rendered (descriptor d ''before'' False) = ''Unexpected newline before 'use strict' directive.''"
  "rendered (descriptor d ''after'' True) = ''Expected newline after 'use strict' directive.''"
  "rendered (descriptor d ''after'' False) = ''Unexpected newline after 'use strict' directive.''"
  by (simp_all add: rendered_def descriptor_def)

subsection \<open>The two blocks of the check\<close>

lemma checkDirectives_scope_body:
  "scope_body nd = Some body \<Longrightarrow> checkDirectives m sc nd rs = check_body m sc body rs"
  by (cases nd rule: scope_body.cases) simp_all

lemma check_before_skip:
  "leadingComments d = None \<or> leadingComments d = Some [] \<Longrightarrow> check_before m d rs = (None, rs)"
  by (auto simp: check_before_def)

lemma check_before_reports:
  assumes "leadingComments d = Some cs" and "cs \<noteq> []" and "hasNewlineBefore d cs = Inr nb"
  shows "check_before m d rs =
           (None, rs @ (if before m = ''always'' \<and> \<not> nb \<or> before m = ''never'' \<and> nb
                        then [descriptor d ''before'' (\<not> nb)] else []))"
  using assms by (auto simp: check_before_def and_then_def when_both_def reportError_def)

lemma check_after_reports:
  assumes "hasNewlineAfter sc d = Inr na"
  shows "check_after m sc d rs =
           (None, rs @ (if after m = ''always'' \<and> \<not> na \<or> after m = ''never'' \<and> na
                        then [descriptor d ''after'' (\<not> na)] else []))"
  using assms by (auto simp: check_after_def and_then_def when_both_def reportError_def)

lemma check_after_throws:
  assumes "hasNewlineAfter sc d = Inl e"
  shows "check_after m sc d rs =
           (if after m = ''always'' \<or> after m = ''never'' then Some e else None, rs)"
  using assms by (auto simp: check_after_def and_then_def when_both_def)

text \<open>The "before" block always returns, and adds at most one report.\<close>

lemma check_before_shape:
  "\<exists>bs. check_before m d rs = (None, rs @ bs)
      \<and> (bs = [] \<or> (\<exists>e. bs = [descriptor d ''before'' e]))
      \<and> (leadingComments d = None \<or> leadingComments d = Some [] \<longrightarrow> bs = [])"
proof (cases "leadingComments d = None \<or> leadingComments d = Some []")
  case True
  then have "check_before m d rs = (None, rs @ [])" by (simp add: check_before_skip)
  then show ?thesis by blast
next
  case False
  then obtain cs where cs: "leadingComments d = Some cs" "cs \<noteq> []" by auto
  then obtain nb where "hasNewlineBefore d cs = Inr nb" by (simp add: hasNewlineBefore_last)
  from check_before_reports [OF cs this, of m rs] False show ?thesis by auto
qed

text \<open>The "after" block adds at most one report, whether it returns or throws.\<close>

lemma check_after_shape:
  "\<exists>st as. check_after m sc d rs = (st, rs @ as)
      \<and> (as = [] \<or> (\<exists>e. as = [descriptor d ''after'' e]))"
proof (cases "hasNewlineAfter sc d")
  case (Inl e)
  from check_after_throws [OF this, of m rs] show ?thesis by simp
next
  case (Inr na)
  from check_after_reports [OF this, of m rs] show ?thesis by auto
qed

lemma check_body_directive:
  assumes "getUseStrictDirective body = Inr (Some d)"
    and "check_before m d rs = (None, rs')"
  shows "check_body m sc body rs =
           (if Some d = index body (int (length body) - 1) then (None, rs')
            else check_after m sc d rs')"
  using assms by (simp add: check_body_def and_then_def)

lemma check_body_shape:
  assumes "getUseStrictDirective body = Inr (Some d)"
  shows "\<exists>st bs as. check_body m sc body rs = (st, rs @ bs @ as)
      \<and> (bs = [] \<or> (\<exists>e. bs = [descriptor d ''before'' e]))
      \<and> (as = [] \<or> (\<exists>e. as = [descriptor d ''after'' e]))
      \<and> (leadingComments d = None \<or> leadingComments d = Some [] \<longrightarrow> bs = [])
      \<and> (Some d = index body (int (length body) - 1) \<longrightarrow> as = [])"
proof -
  from check_before_shape [of m d rs]
  obtain bs where bs: "check_before m d rs = (None, rs @ bs)"
    "bs = [] \<or> (\<exists>e. bs = [descriptor d ''before'' e])"
    "leadingComments d = None \<or> leadingComments d = Some [] \<longrightarrow> bs = []"
    by blast
  show ?thesis
  proof (cases "Some d = index body (int (length body) - 1)")
    case True
    with check_body_directive [OF assms bs(1)]
    have "check_body m sc body rs = (None, rs @ bs @ [])" by simp
    with bs(2,3) show ?thesis by blast
  next
    case False
    from check_after_shape [of m sc d "rs @ bs"]
    obtain st as where as: "check_after m sc d (rs @ bs) = (st, (rs @ bs) @ as)"
      "as = [] \<or> (\<exists>e. as = [descriptor d ''after'' e])"
      by blast
    with False check_body_directive [OF assms bs(1)]
    have "check_body m sc body rs = (st, rs @ bs @ as)" by simp
    with bs(2,3) as(2) False show ?thesis by blast
  qed
qed

lemma checkDirectives_shape:
  "\<exists>st bs as. checkDirectives m sc nd rs = (st, rs @ bs @ as)
     \<and> (bs = [] \<or> (\<exists>d e. bs = [descriptor d ''before'' e]))
     \<and> (as = [] \<or> (\<exists>d e. as = [descriptor d ''after'' e]))"
proof (cases "scope_body nd")
  case None
  then have "checkDirectives m sc nd rs = (None, rs @ [] @ [])"
    by (cases nd rule: scope_body.cases) simp_all
  then show ?thesis by blast
next
  case (Some body)
  show ?thesis
  proof (cases "\<exists>d. getUseStrictDirective body = Inr (Some d)")
    case True
    then obtain d where "getUseStrictDirective body = Inr (Some d)" ..
    from check_body_shape [OF this, of m sc rs] Some show ?thesis
      by (simp add: checkDirectives_scope_body) blast
  next
    case False
    then have "check_body m sc body rs = (fst (check_body m sc body rs), rs @ [] @ [])"
      by (auto simp: check_body_def split: sum.splits option.splits)
    with Some have "checkDirectives m sc nd rs = (fst (check_body m sc body rs), rs @ [] @ [])"
      by (simp add: checkDirectives_scope_body)
    then show ?thesis by blast
  qed
qed

section \<open>The claims of the specification\<close>

subsection \<open>C1: an empty body\<close>

text \<open>
  Claim C1 says that the check runs to completion, without a runtime error, for every
  scope it is given, the scope with an empty statement list included. On the empty
  program (and on a function with an empty body, \<^verbatim>\<open>function foo() {}\<close>) the rule
  reads \<^verbatim>\<open>body[0].type\<close> of an absent statement and throws a
  \<^verbatim>\<open>TypeError\<close>, under the default options and with no report made.
\<close>

theorem checkDirectives_empty_body_throws:
  "checkDirectives (create []) empty_source (Program []) [] = (Some TypeError, [])
 \<and> checkDirectives (create []) empty_source (FunctionDeclaration []) [] = (Some TypeError, [])"
  by (simp add: check_body_def getUseStrictDirective_Nil)

subsection \<open>C2: the blank line before\<close>

text \<open>
  Claim C2: for a directive with at least one leading comment, "has blank line before"
  holds if and only if the start line of the directive minus the end line of the last
  leading comment is at least 2; a difference of exactly 1 does not count as a blank line.
\<close>

theorem hasNewlineBefore_threshold:
  assumes "cs \<noteq> []"
  shows "hasNewlineBefore n cs =
           Inr (2 \<le> line (loc_start (loc n)) - line (loc_end (loc (last cs))))
       \<and> (line (loc_start (loc n)) - line (loc_end (loc (last cs))) = 1 \<longrightarrow>
            hasNewlineBefore n cs = Inr False)"
  using assms by (simp add: hasNewlineBefore_def index_last)

theorem hasNewlineBefore_threshold_witness:
  "[comment_A] \<noteq> []
 \<and> line (loc_start (loc directive_A)) - line (loc_end (loc (last [comment_A]))) = 1
 \<and> hasNewlineBefore directive_A [comment_A] = Inr False"
  using hasNewlineBefore_threshold [of "[comment_A]" directive_A]
  by (simp add: directive_A_def comment_A_def on_line_def)

subsection \<open>C3: the blank line after\<close>

text \<open>
  Claim C3: for a directive that is not the last statement of its body, "has blank line
  after" is measured against the first trailing comment when there is one, and otherwise
  against the next token after the directive; it holds if and only if the start line of
  that element minus the end line of the directive is at least 2. A directive that is
  not the last statement has a token after it, which is the hypothesis of the second
  part.
\<close>

theorem hasNewlineAfter_following_element:
  "(trailing (getComments sc n) = c # cs \<longrightarrow>
      hasNewlineAfter sc n = Inr (2 \<le> line (loc_start (loc c)) - line (loc_end (loc n))))
 \<and> (trailing (getComments sc n) = [] \<and> getTokenAfter sc n = Some t \<longrightarrow>
      hasNewlineAfter sc n = Inr (2 \<le> line (loc_start (loc t)) - line (loc_end (loc n))))"
  by (simp add: hasNewlineAfter_def index_Cons_0)

theorem hasNewlineAfter_following_element_witness:
  "trailing (getComments source_C directive_B) = [comment_C]
 \<and> hasNewlineAfter source_C directive_B = Inr True
 \<and> trailing (getComments source_B directive_B) = []
 \<and> getTokenAfter source_B directive_B
     = Some \<lparr>loc = on_line 2, kind = ''Keyword'', text_value = ''var''\<rparr>
 \<and> hasNewlineAfter source_B directive_B = Inr False"
  using hasNewlineAfter_following_element
          [of source_C directive_B comment_C "[]"
              "\<lparr>loc = on_line 2, kind = ''Keyword'', text_value = ''var''\<rparr>"]
        hasNewlineAfter_following_element
          [of source_B directive_B comment_C "[]"
              "\<lparr>loc = on_line 2, kind = ''Keyword'', text_value = ''var''\<rparr>"]
  by (simp add: source_C_def source_B_def directive_B_def comment_C_def on_line_def)

subsection \<open>C4: one report for each side that does not fit\<close>

text \<open>
  Claim C4: for a directive and a resolved mode, a report is made for a side if and only
  if the mode of that side is \<^verbatim>\<open>always\<close> and there is no blank line, or it is
  \<^verbatim>\<open>never\<close> and there is one. The report is made on the directive node, with the
  message "Expected" or "Unexpected", "newline", "before" or "after",
  "'use strict' directive."; the two sides are decided separately, and both can be
  reported for one directive. The "before" side is checked for a directive with leading
  comments, the "after" side for one that is not the last statement.
\<close>

theorem checkDirectives_reports_each_side:
  assumes "scope_body nd = Some body"
    and "getUseStrictDirective body = Inr (Some d)"
  shows "(leadingComments d = Some cs \<and> cs \<noteq> [] \<and> hasNewlineBefore d cs = Inr nb \<longrightarrow>
            filter (\<lambda>r. side r = Some ''before'') (snd (checkDirectives m sc nd [])) =
              (if before m = ''always'' \<and> \<not> nb \<or> before m = ''never'' \<and> nb
               then [descriptor d ''before'' (\<not> nb)] else []))
       \<and> (Some d \<noteq> index body (int (length body) - 1) \<and> hasNewlineAfter sc d = Inr na \<longrightarrow>
            filter (\<lambda>r. side r = Some ''after'') (snd (checkDirectives m sc nd [])) =
              (if after m = ''always'' \<and> \<not> na \<or> after m = ''never'' \<and> na
               then [descriptor d ''after'' (\<not> na)] else []))
       \<and> (\<forall>r \<in> set (snd (checkDirectives m sc nd [])). node r = d)
       \<and> rendered (descriptor d ''before'' True)
           = ''Expected newline before 'use strict' directive.''
       \<and> rendered (descriptor d ''before'' False)
           = ''Unexpected newline before 'use strict' directive.''
       \<and> rendered (descriptor d ''after'' True)
           = ''Expected newline after 'use strict' directive.''
       \<and> rendered (descriptor d ''after'' False)
           = ''Unexpected newline after 'use strict' directive.''"
proof (intro conjI impI)
  assume h: "leadingComments d = Some cs \<and> cs \<noteq> [] \<and> hasNewlineBefore d cs = Inr nb"
  let ?bs = "if before m = ''always'' \<and> \<not> nb \<or> before m = ''never'' \<and> nb
               then [descriptor d ''before'' (\<not> nb)] else []"
  from h have "leadingComments d = Some cs" and "cs \<noteq> []"
    and "hasNewlineBefore d cs = Inr nb" by simp_all
  then have b: "check_before m d [] = (None, [] @ ?bs)"
    by (rule check_before_reports)
  show "filter (\<lambda>r. side r = Some ''before'') (snd (checkDirectives m sc nd [])) = ?bs"
  proof (cases "Some d = index body (int (length body) - 1)")
    case True
    with check_body_directive [OF assms(2) b] assms(1) show ?thesis
      by (simp add: checkDirectives_scope_body)
  next
    case False
    from check_after_shape [of m sc d "[] @ ?bs"]
    obtain st as where "check_after m sc d ([] @ ?bs) = (st, ([] @ ?bs) @ as)"
      and "as = [] \<or> (\<exists>e. as = [descriptor d ''after'' e])"
      by blast
    with False check_body_directive [OF assms(2) b] assms(1) show ?thesis
      by (auto simp: checkDirectives_scope_body)
  qed
next
  assume h: "Some d \<noteq> index body (int (length body) - 1) \<and> hasNewlineAfter sc d = Inr na"
  let ?as = "if after m = ''always'' \<and> \<not> na \<or> after m = ''never'' \<and> na
               then [descriptor d ''after'' (\<not> na)] else []"
  from check_before_shape [of m d "[]"]
  obtain bs where bs: "check_before m d [] = (None, [] @ bs)"
    "bs = [] \<or> (\<exists>e. bs = [descriptor d ''before'' e])"
    by auto
  from h have "hasNewlineAfter sc d = Inr na" by simp
  then have "check_after m sc d ([] @ bs) = (None, ([] @ bs) @ ?as)"
    by (rule check_after_reports)
  with h check_body_directive [OF assms(2) bs(1)] assms(1) bs(2)
  show "filter (\<lambda>r. side r = Some ''after'') (snd (checkDirectives m sc nd [])) = ?as"
    by (auto simp: checkDirectives_scope_body)
next
  from check_body_shape [OF assms(2), of m sc "[]"] assms(1)
  show "\<forall>r \<in> set (snd (checkDirectives m sc nd [])). node r = d"
    by (auto simp: checkDirectives_scope_body)
qed (simp_all add: rendered_descriptor)

theorem checkDirectives_reports_each_side_witness:
  "scope_body (Program [directive_A, declaration_A]) = Some [directive_A, declaration_A]
 \<and> getUseStrictDirective [directive_A, declaration_A] = Inr (Some directive_A)
 \<and> hasNewlineBefore directive_A [comment_A] = Inr False
 \<and> hasNewlineAfter source_A directive_A = Inr False
 \<and> filter (\<lambda>r. side r = Some ''before'')
      (snd (checkDirectives (create []) source_A (Program [directive_A, declaration_A]) []))
     = [descriptor directive_A ''before'' True]
 \<and> filter (\<lambda>r. side r = Some ''after'')
      (snd (checkDirectives (create []) source_A (Program [directive_A, declaration_A]) []))
     = [descriptor directive_A ''after'' True]"
  using checkDirectives_reports_each_side
          [where nd = "Program [directive_A, declaration_A]"
             and body = "[directive_A, declaration_A]" and d = directive_A
             and cs = "[comment_A]" and nb = False and na = False
             and sc = source_A and m = "create []"]
  by (simp add: getUseStrictDirective_Cons hasNewlineBefore_def hasNewlineAfter_def index_def
        create_def directive_A_def declaration_A_def comment_A_def source_A_def on_line_def)

subsection \<open>C5: no leading comment, no "before" report\<close>

text \<open>
  Claim C5: for a directive whose list of leading comments is empty or absent, no
  "before" report is ever made, whatever the mode.
\<close>

theorem checkDirectives_no_before_without_comments:
  assumes "scope_body nd = Some body"
    and "getUseStrictDirective body = Inr (Some d)"
    and "leadingComments d = None \<or> leadingComments d = Some []"
  shows "\<forall>r \<in> set (snd (checkDirectives m sc nd [])). side r \<noteq> Some ''before''"
proof -
  from check_body_shape [OF assms(2), of m sc "[]"] assms(3)
  obtain st as where "check_body m sc body [] = (st, as)"
    and "as = [] \<or> (\<exists>e. as = [descriptor d ''after'' e])"
    by auto
  with assms(1) show ?thesis
    by (auto simp: checkDirectives_scope_body)
qed

theorem checkDirectives_no_before_without_comments_witness:
  "scope_body (Program [directive_B, declaration_B]) = Some [directive_B, declaration_B]
 \<and> getUseStrictDirective [directive_B, declaration_B] = Inr (Some directive_B)
 \<and> leadingComments directive_B = None
 \<and> \<not> (\<exists>r \<in> set (snd (checkDirectives (create [StringConfig ''always'']) source_B
                          (Program [directive_B, declaration_B]) [])).
         side r = Some ''before'')"
  using checkDirectives_no_before_without_comments
          [where nd = "Program [directive_B, declaration_B]"
             and body = "[directive_B, declaration_B]" and d = directive_B
             and sc = source_B and m = "create [StringConfig ''always'']"]
  by (simp add: getUseStrictDirective_Cons directive_B_def)

subsection \<open>C6: the last statement, no "after" report\<close>

text \<open>
  Claim C6: for a directive that is the last statement of its body (the only statement
  included), no "after" report is ever made, whatever the mode.
\<close>

theorem checkDirectives_no_after_when_last:
  assumes "scope_body nd = Some body"
    and "getUseStrictDirective body = Inr (Some d)"
    and "Some d = index body (int (length body) - 1)"
  shows "\<forall>r \<in> set (snd (checkDirectives m sc nd [])). side r \<noteq> Some ''after''"
proof -
  from check_body_shape [OF assms(2), of m sc "[]"] assms(3)
  obtain st bs where "check_body m sc body [] = (st, bs)"
    and "bs = [] \<or> (\<exists>e. bs = [descriptor d ''before'' e])"
    by auto
  with assms(1) show ?thesis
    by (auto simp: checkDirectives_scope_body)
qed

theorem checkDirectives_no_after_when_last_witness:
  "scope_body (FunctionDeclaration [directive_B]) = Some [directive_B]
 \<and> getUseStrictDirective [directive_B] = Inr (Some directive_B)
 \<and> Some directive_B = index [directive_B] (int (length [directive_B]) - 1)
 \<and> \<not> (\<exists>r \<in> set (snd (checkDirectives (create [StringConfig ''always'']) empty_source
                          (FunctionDeclaration [directive_B]) [])).
         side r = Some ''after'')"
  using checkDirectives_no_after_when_last
          [where nd = "FunctionDeclaration [directive_B]"
             and body = "[directive_B]" and d = directive_B
             and sc = empty_source and m = "create [StringConfig ''always'']"]
  by (simp add: getUseStrictDirective_Cons index_def directive_B_def)

subsection \<open>C7: no directive in first position, no report\<close>

text \<open>
  Claim C7: for a scope that is an arrow function with an expression body, or whose first
  statement is not an expression statement holding the literal "use strict", the check
  makes no report, whatever the mode; only the first position of the body is looked at
  for the directive, so a directive further down changes nothing. The condition is on the
  shape of the first statement itself: its type is not
  \<^verbatim>\<open>ExpressionStatement\<close> of a \<^verbatim>\<open>Literal\<close> with the string value
  \<^verbatim>\<open>use strict\<close>. What the locator answers is decided by that statement alone,
  whatever follows it.
\<close>

theorem checkDirectives_skips_without_directive:
  "checkDirectives m sc (ArrowFunctionExpression (ExpressionBody e)) rs = (None, rs)
 \<and> (scope_body nd = Some (s # rest)
      \<and> node_type s \<noteq> ExpressionStatement (Literal (StringValue ''use strict'')) \<longrightarrow>
      checkDirectives m sc nd rs = (None, rs))
 \<and> (scope_body nd = Some [] \<longrightarrow> snd (checkDirectives m sc nd rs) = rs)
 \<and> getUseStrictDirective (s # rest) =
      Inr (if node_type s = ExpressionStatement (Literal (StringValue ''use strict''))
           then Some s else None)
 \<and> getUseStrictDirective (s # rest) = getUseStrictDirective [s]"
proof (intro conjI impI)
  show "checkDirectives m sc (ArrowFunctionExpression (ExpressionBody e)) rs = (None, rs)"
    by simp
next
  assume h: "scope_body nd = Some (s # rest)
           \<and> node_type s \<noteq> ExpressionStatement (Literal (StringValue ''use strict''))"
  then have "getUseStrictDirective (s # rest) = Inr None"
    by (simp add: getUseStrictDirective_Cons isNodeUseStrictDirective_Some
          del: isNodeUseStrictDirective.simps)
  then have "check_body m sc (s # rest) rs = (None, rs)"
    by (simp add: check_body_def)
  with h show "checkDirectives m sc nd rs = (None, rs)"
    by (simp add: checkDirectives_scope_body)
next
  assume "scope_body nd = Some []"
  then show "snd (checkDirectives m sc nd rs) = rs"
    by (simp add: checkDirectives_scope_body check_body_def getUseStrictDirective_Nil)
next
  show "getUseStrictDirective (s # rest) =
          Inr (if node_type s = ExpressionStatement (Literal (StringValue ''use strict''))
               then Some s else None)"
    by (simp add: getUseStrictDirective_Cons isNodeUseStrictDirective_Some
          del: isNodeUseStrictDirective.simps)
next
  show "getUseStrictDirective (s # rest) = getUseStrictDirective [s]"
    by (simp add: getUseStrictDirective_Cons)
qed

theorem checkDirectives_skips_without_directive_witness:
  "scope_body (Program [declaration_B, directive_A]) = Some [declaration_B, directive_A]
 \<and> node_type declaration_B \<noteq> ExpressionStatement (Literal (StringValue ''use strict''))
 \<and> node_type directive_A = ExpressionStatement (Literal (StringValue ''use strict''))
 \<and> checkDirectives (create [StringConfig ''always'']) source_A
      (Program [declaration_B, directive_A]) [] = (None, [])
 \<and> getUseStrictDirective [declaration_B, directive_A] = Inr None"
  using checkDirectives_skips_without_directive
          [where nd = "Program [declaration_B, directive_A]" and s = declaration_B
             and rest = "[directive_A]" and sc = source_A and rs = "[]"
             and m = "create [StringConfig ''always'']"]
  by (simp add: declaration_B_def directive_A_def)

subsection \<open>C8: a bare mode is the mode on both sides\<close>

text \<open>
  Claim C8: for every scope and every mode \<open>mo\<close> among \<^verbatim>\<open>always\<close> and
  \<^verbatim>\<open>never\<close>, the rule configured with the bare string \<open>mo\<close> makes the same
  reports as the rule configured with the object \<^verbatim>\<open>{ before: mo, after: mo }\<close>.
\<close>

theorem bare_mode_same_as_object:
  assumes "mo = ''always'' \<or> mo = ''never''"
  shows "checkDirectives (create [StringConfig mo]) sc nd rs =
         checkDirectives (create [ObjectConfig \<lparr>before = mo, after = mo\<rparr>]) sc nd rs"
proof -
  from assms have "mo \<noteq> []" by auto
  then have "create [StringConfig mo] = create [ObjectConfig \<lparr>before = mo, after = mo\<rparr>]"
    by (simp add: create_def index_Cons_0)
  then show ?thesis by simp
qed

theorem bare_mode_same_as_object_witness:
  "checkDirectives (create [StringConfig ''never'']) source_B
     (Program [directive_B, declaration_B]) [] =
   checkDirectives (create [ObjectConfig \<lparr>before = ''never'', after = ''never''\<rparr>]) source_B
     (Program [directive_B, declaration_B]) []"
  using bare_mode_same_as_object [of "''never''" source_B "Program [directive_B, declaration_B]" "[]"]
  by simp

subsection \<open>C9: the default\<close>

text \<open>
  Claim C9: for every scope, the rule with no option given makes the same reports as the
  rule configured with the bare string \<^verbatim>\<open>always\<close>: the default mode is
  \<^verbatim>\<open>always\<close> on both sides.
\<close>

theorem default_same_as_always:
  "checkDirectives (create []) sc nd rs =
     checkDirectives (create [StringConfig ''always'']) sc nd rs
 \<and> create [] = \<lparr>before = ''always'', after = ''always''\<rparr>"
  by (simp add: create_def index_Cons_0 index_Nil)

subsection \<open>C10: at most one report for a side\<close>

text \<open>
  Claim C10: for every scope and every mode, the check makes at most one report for each
  side, so never an "Expected" and an "Unexpected" report for the same side, and at most
  two reports in one call.
\<close>

theorem checkDirectives_at_most_one_per_side:
  "length (filter (\<lambda>r. side r = Some ''before'') (snd (checkDirectives m sc nd []))) \<le> 1
 \<and> length (filter (\<lambda>r. side r = Some ''after'') (snd (checkDirectives m sc nd []))) \<le> 1
 \<and> length (snd (checkDirectives m sc nd [])) \<le> 2"
proof -
  from checkDirectives_shape [of m sc nd "[]"]
  obtain st bs as where "checkDirectives m sc nd [] = (st, [] @ bs @ as)"
    and "bs = [] \<or> (\<exists>d e. bs = [descriptor d ''before'' e])"
    and "as = [] \<or> (\<exists>d e. as = [descriptor d ''after'' e])"
    by blast
  then show ?thesis by auto
qed

end
